theory Spec2Isabelle
  imports Complex_Main
begin

section \<open>Values and errors of the training script\<close>

text \<open>
  The script \<^verbatim>\<open>train.py\<close> is embedded as follows. Python integers are \<open>int\<close>.
  Python floats that only take part in arithmetic (learning rates, weights) are
  idealised as \<open>real\<close>: rounding is not modelled. Loss values, which the script
  tests with \<^verbatim>\<open>math.isnan\<close> and compares with \<^verbatim>\<open><\<close>, keep the non-finite
  values of IEEE floats.
\<close>

datatype pyfloat = Finite real | PosInf | NegInf | NaN

text \<open>The comparison \<^verbatim>\<open>a < b\<close> of two floats: false as soon as one side is NaN.\<close>

fun pf_lt :: "pyfloat \<Rightarrow> pyfloat \<Rightarrow> bool" where
  "pf_lt NaN b = False"
| "pf_lt a NaN = False"
| "pf_lt (Finite x) (Finite y) = (x < y)"
| "pf_lt (Finite x) PosInf = True"
| "pf_lt (Finite x) NegInf = False"
| "pf_lt PosInf b = False"
| "pf_lt NegInf NegInf = False"
| "pf_lt NegInf b = True"

text \<open>\<^verbatim>\<open>math.isnan\<close>.\<close>

fun isnan :: "pyfloat \<Rightarrow> bool" where
  "isnan NaN = True"
| "isnan x = False"

datatype py_error = AssertionError | ZeroDivisionError | NameError | KeyError | TypeError

section \<open>Configuration\<close>

text \<open>
  The module-level configuration values (lines 45 to 91) after the overrides of the
  configurator, together with \<open>rank\<close> and \<open>world_size\<close>, the values of the environment
  variables \<^verbatim>\<open>RANK\<close> (read with default \<open>-1\<close>) and \<^verbatim>\<open>WORLD_SIZE\<close>.
\<close>

record config =
  eval_interval :: int
  log_interval :: int
  eval_only :: bool
  always_save_checkpoint :: bool
  init_from :: string
  wandb_log :: bool
  gradient_accumulation_steps :: int
  hypergrad :: bool
  learning_rate :: real
  max_iters :: int
  weight_decay :: real
  grad_clip :: real
  decay_lr :: bool
  warmup_iters :: int
  lr_decay_iters :: int
  min_lr :: real
  adam :: bool
  hyperadam :: bool
  rank :: int
  world_size :: int

text \<open>The defaults written in the script, for a launch without \<^verbatim>\<open>RANK\<close>.\<close>

definition default_config :: config where
  "default_config =
     \<lparr> eval_interval = 2000, log_interval = 1, eval_only = False,
       always_save_checkpoint = True, init_from = ''scratch'', wandb_log = False,
       gradient_accumulation_steps = 1, hypergrad = True,
       learning_rate = 6 / 10000, max_iters = 600000, weight_decay = 1 / 10,
       grad_clip = 1, decay_lr = True, warmup_iters = 2000,
       lr_decay_iters = 600000, min_lr = 6 / 100000,
       adam = False, hyperadam = False, rank = - 1, world_size = 1 \<rparr>"

section \<open>Learning-rate schedule\<close>

text \<open>
  \<^verbatim>\<open>decay_ratio = (it - warmup_iters) / (lr_decay_iters - warmup_iters)\<close> (line 261),
  where the divisor is not zero.
\<close>

definition decay_ratio :: "config \<Rightarrow> int \<Rightarrow> real" where
  "decay_ratio cfg it =
     real_of_int (it - warmup_iters cfg) / real_of_int (lr_decay_iters cfg - warmup_iters cfg)"

text \<open>
  \<^verbatim>\<open>get_lr\<close> (lines 253 to 264). A true division by the integer zero raises
  \<^verbatim>\<open>ZeroDivisionError\<close>; the \<^verbatim>\<open>assert\<close> of line 262 raises \<^verbatim>\<open>AssertionError\<close>.
  The rates are real numbers here, where the script computes in double precision: the
  definition gives the branch that runs, the errors and the test of the assertion, and
  not the rounding of the returned rate.
\<close>

definition get_lr :: "config \<Rightarrow> int \<Rightarrow> py_error + real" where
  "get_lr cfg it =
     (if it < warmup_iters cfg then
        (if warmup_iters cfg = 0 then Inl ZeroDivisionError
         else Inr (learning_rate cfg * real_of_int it / real_of_int (warmup_iters cfg)))
      else if it > lr_decay_iters cfg then Inr (min_lr cfg)
      else if lr_decay_iters cfg - warmup_iters cfg = 0 then Inl ZeroDivisionError
      else if \<not> (0 \<le> decay_ratio cfg it \<and> decay_ratio cfg it \<le> 1) then Inl AssertionError
      else Inr (min_lr cfg
                + (0.5 * (1.0 + cos (pi * decay_ratio cfg it)))
                  * (learning_rate cfg - min_lr cfg)))"

text \<open>Line 296: \<^verbatim>\<open>lr = get_lr(iter_num) if decay_lr else learning_rate\<close>.\<close>

definition scheduled_lr :: "config \<Rightarrow> int \<Rightarrow> py_error + real" where
  "scheduled_lr cfg it = (if decay_lr cfg then get_lr cfg it else Inr (learning_rate cfg))"

section \<open>Hyperparameter set and gradient masking\<close>

text \<open>
  A tensor as far as the script reads it: its values, its gradient slot (\<open>None\<close> while
  no gradient has been stored), its rank \<^verbatim>\<open>dim()\<close> and its \<^verbatim>\<open>requires_grad\<close> flag.
  A hyperparameter is a scalar tensor, a model parameter holds a list of values.
\<close>

record 'a tensor =
  data :: 'a
  grad :: "'a option"
  dim :: nat
  requires_grad :: bool

text \<open>The dictionary \<^verbatim>\<open>mw.optimizer.parameters\<close>, from names to scalar tensors.\<close>

type_synonym hparams = "(string \<times> real tensor) list"

text \<open>\<^verbatim>\<open>torch.zeros_like\<close> on a scalar.\<close>

definition zeros_like :: "real \<Rightarrow> real" where
  "zeros_like x = 0"

text \<open>
  Line 345: \<^verbatim>\<open>parameters['alpha'].grad = torch.zeros_like(parameters['alpha'].grad)\<close>.
  A missing key raises \<^verbatim>\<open>KeyError\<close>, and \<^verbatim>\<open>zeros_like(None)\<close> raises \<^verbatim>\<open>TypeError\<close>.
\<close>

definition zero_alpha_grad :: "hparams \<Rightarrow> py_error + hparams" where
  "zero_alpha_grad hp =
     (case map_of hp ''alpha'' of
        None \<Rightarrow> Inl KeyError
      | Some a \<Rightarrow>
          (case grad a of
             None \<Rightarrow> Inl TypeError
           | Some g \<Rightarrow>
               Inr (map (\<lambda>(n, p). if n = ''alpha'' then (n, p\<lparr>grad := Some (zeros_like g)\<rparr>)
                                   else (n, p)) hp)))"

text \<open>Lines 347 to 348: the loop of the \<^verbatim>\<open>adam\<close> branch.\<close>

definition zero_all_grads :: "hparams \<Rightarrow> hparams" where
  "zero_all_grads hp = map (\<lambda>(n, p). (n, p\<lparr>grad := Some (zeros_like (data p))\<rparr>)) hp"

text \<open>Lines 350 to 352: the loop of the \<^verbatim>\<open>hyperadam\<close> branch.\<close>

definition zero_grads_except_betas :: "hparams \<Rightarrow> hparams" where
  "zero_grads_except_betas hp =
     map (\<lambda>(n, p). if n \<noteq> ''beta1'' \<and> n \<noteq> ''beta2''
                    then (n, p\<lparr>grad := Some (zeros_like (data p))\<rparr>) else (n, p)) hp"

text \<open>Lines 345 to 352: the masking that follows \<^verbatim>\<open>loss.backward()\<close>.\<close>

definition mask_gradients :: "config \<Rightarrow> hparams \<Rightarrow> py_error + hparams" where
  "mask_gradients cfg hp =
     (case zero_alpha_grad hp of
        Inl e \<Rightarrow> Inl e
      | Inr hp1 \<Rightarrow>
          if adam cfg then Inr (zero_all_grads hp1)
          else if hyperadam cfg then Inr (zero_grads_except_betas hp1)
          else Inr hp1)"

section \<open>Manual weight decay\<close>

text \<open>
  Lines 363 to 365. The learning rate is looked up in the hyperparameter set each time
  the body of the \<^verbatim>\<open>if\<close> runs; \<^verbatim>\<open>copy_\<close> replaces the values and nothing else.
\<close>

fun manual_weight_decay ::
  "config \<Rightarrow> hparams \<Rightarrow> real list tensor list \<Rightarrow> py_error + real list tensor list" where
  "manual_weight_decay cfg hp [] = Inr []"
| "manual_weight_decay cfg hp (p # ps) =
     (if dim p \<ge> 2 \<and> requires_grad p then
        (case map_of hp ''alpha'' of
           None \<Rightarrow> Inl KeyError
         | Some a \<Rightarrow>
             (case manual_weight_decay cfg hp ps of
                Inl e \<Rightarrow> Inl e
              | Inr ps' \<Rightarrow>
                  Inr (p\<lparr>data := map (\<lambda>w. w - data a * weight_decay cfg * w) (data p)\<rparr> # ps')))
      else
        (case manual_weight_decay cfg hp ps of
           Inl e \<Rightarrow> Inl e
         | Inr ps' \<Rightarrow> Inr (p # ps')))"

section \<open>The training loop\<close>

text \<open>
  What the loop does to the outside is recorded as a trace of events. The collaborators
  are taken as given: \<open>estimate_loss env k\<close> is the pair of train and validation loss
  that the call number \<open>k\<close> of \<^verbatim>\<open>estimate_loss()\<close> returns, \<open>batch_loss env i\<close> is the loss
  of the forward pass of iteration \<open>i\<close>, and \<open>ckpt_iter_num\<close>, \<open>ckpt_best_val_loss\<close> are
  the two fields of the checkpoint file that a resumed run reads. The tensor updates of
  one meta-step (lines 335 to 367) are the functions above; in the loop they appear as
  the events \<open>ForwardBackward\<close>, \<open>BatchRead\<close> and \<open>OptimizerStep\<close> and are taken to
  succeed. Timing and the throughput estimate are left out.
\<close>

datatype event =
    MakeDirs
  | WandbInit
  | BatchRead
  | Eval int pyfloat pyfloat
  | WandbLog int
  | Checkpoint int pyfloat
  | ForwardBackward int
  | OptimizerStep int
  | Log int
  | FinalEval pyfloat pyfloat
  | Summary
  | ResultsWrite string pyfloat pyfloat

record env =
  estimate_loss :: "nat \<Rightarrow> pyfloat \<times> pyfloat"
  batch_loss :: "int \<Rightarrow> pyfloat"
  ckpt_iter_num :: int
  ckpt_best_val_loss :: pyfloat

text \<open>
  The variables of the script that the loop reads and writes. \<open>losses\<close> and \<open>lossf\<close> are
  \<open>None\<close> while the name is unbound; \<open>n_est\<close> counts the calls of \<^verbatim>\<open>estimate_loss()\<close>.
\<close>

record train_state =
  iter_num :: int
  local_iter_num :: int
  best_val_loss :: pyfloat
  lr :: real
  losses :: "(pyfloat \<times> pyfloat) option"
  lossf :: "pyfloat option"
  n_est :: nat
  trace :: "event list"

datatype outcome = Continue | Break | Raise py_error

definition emit :: "event list \<Rightarrow> train_state \<Rightarrow> train_state" where
  "emit es s = s\<lparr>trace := trace s @ es\<rparr>"

text \<open>Sequencing: the next block runs only if the previous one fell through.\<close>

definition then_do ::
  "outcome \<times> train_state \<Rightarrow> (train_state \<Rightarrow> outcome \<times> train_state) \<Rightarrow> outcome \<times> train_state" where
  "then_do r f = (if fst r = Continue then f (snd r) else r)"

text \<open>Lines 100 to 118: \<^verbatim>\<open>ddp\<close> and \<^verbatim>\<open>master_process\<close>.\<close>

definition ddp :: "config \<Rightarrow> bool" where
  "ddp cfg = (rank cfg \<noteq> - 1)"

definition master_process :: "config \<Rightarrow> bool" where
  "master_process cfg = (if ddp cfg then rank cfg = 0 else True)"

text \<open>Lines 296 to 300: the scheduled rate is written into the optimizers.\<close>

definition set_lr :: "config \<Rightarrow> train_state \<Rightarrow> outcome \<times> train_state" where
  "set_lr cfg s =
     (case scheduled_lr cfg (iter_num s) of
        Inl e \<Rightarrow> (Raise e, s)
      | Inr r \<Rightarrow> (Continue, s\<lparr>lr := r\<rparr>))"

text \<open>
  Lines 304 to 329: periodic evaluation and checkpoint. The remainder
  \<^verbatim>\<open>iter_num % eval_interval\<close> is computed before \<^verbatim>\<open>master_process\<close> is looked at.
\<close>

definition eval_block :: "config \<Rightarrow> env \<Rightarrow> train_state \<Rightarrow> outcome \<times> train_state" where
  "eval_block cfg env s =
     (if eval_interval cfg = 0 then (Raise ZeroDivisionError, s)
      else if iter_num s mod eval_interval cfg = 0 \<and> master_process cfg then
        (let l = estimate_loss env (n_est s);
             s1 = emit [Eval (iter_num s) (fst l) (snd l)]
                    (s\<lparr>losses := Some l, n_est := Suc (n_est s)\<rparr>);
             s2 = (if wandb_log cfg then emit [WandbLog (iter_num s)] s1 else s1)
         in if pf_lt (snd l) (best_val_loss s2) \<or> always_save_checkpoint cfg then
              (let s3 = s2\<lparr>best_val_loss := snd l\<rparr>
               in if iter_num s3 > 0
                  then (Continue, emit [Checkpoint (iter_num s3) (best_val_loss s3)] s3)
                  else (Continue, s3))
            else (Continue, s2))
      else (Continue, s))"

text \<open>Lines 331 to 332.\<close>

definition eval_only_block :: "config \<Rightarrow> train_state \<Rightarrow> outcome \<times> train_state" where
  "eval_only_block cfg s = (if iter_num s = 0 \<and> eval_only cfg then (Break, s) else (Continue, s))"

text \<open>Lines 335 to 367: one meta-step, with the prefetch of the next batch (line 353).\<close>

definition train_block :: "train_state \<Rightarrow> outcome \<times> train_state" where
  "train_block s =
     (Continue, emit [ForwardBackward (iter_num s), BatchRead, OptimizerStep (iter_num s)] s)"

text \<open>
  Lines 375 to 385: the log of the iteration. Line 384 reads \<^verbatim>\<open>losses\<close> after the
  two \<^verbatim>\<open>print\<close> calls.
\<close>

definition log_block :: "config \<Rightarrow> env \<Rightarrow> train_state \<Rightarrow> outcome \<times> train_state" where
  "log_block cfg env s =
     (if log_interval cfg = 0 then (Raise ZeroDivisionError, s)
      else if iter_num s mod log_interval cfg = 0 \<and> master_process cfg then
        (let s1 = emit [Log (iter_num s)] (s\<lparr>lossf := Some (batch_loss env (iter_num s))\<rparr>)
         in case losses s1 of
              None \<Rightarrow> (Raise NameError, s1)
            | Some l \<Rightarrow> (Continue, s1))
      else (Continue, s))"

text \<open>Lines 387 to 388.\<close>

definition advance :: "train_state \<Rightarrow> train_state" where
  "advance s = s\<lparr>iter_num := iter_num s + 1, local_iter_num := local_iter_num s + 1\<rparr>"

text \<open>The name of the results file without directory, device digit and extension.\<close>

definition results_file :: "config \<Rightarrow> string" where
  "results_file cfg =
     (if adam cfg then ''train_log_adam''
      else if hyperadam cfg then ''train_log_hyperadam''
      else ''train_log_mada_3_b3r'')"

text \<open>
  Lines 393 to 414, the body of the termination branch: one more evaluation, the
  summary lines (line 398 reads \<^verbatim>\<open>lossf\<close>), the results row, \<^verbatim>\<open>break\<close>.
\<close>

definition final_block :: "config \<Rightarrow> env \<Rightarrow> train_state \<Rightarrow> outcome \<times> train_state" where
  "final_block cfg env s =
     (let l = estimate_loss env (n_est s);
          s1 = emit [FinalEval (fst l) (snd l)] (s\<lparr>losses := Some l, n_est := Suc (n_est s)\<rparr>)
      in case lossf s1 of
           None \<Rightarrow> (Raise NameError, s1)
         | Some f \<Rightarrow>
             (let s2 = emit [Summary] s1
              in if hypergrad cfg
                 then (Break, emit [ResultsWrite (results_file cfg) (fst l) (snd l)] s2)
                 else (Break, s2)))"

text \<open>
  Line 392: \<^verbatim>\<open>if iter_num > max_iters or math.isnan(losses['train'])\<close>; the second
  operand is evaluated only when the first is false.
\<close>

definition termination_block :: "config \<Rightarrow> env \<Rightarrow> train_state \<Rightarrow> outcome \<times> train_state" where
  "termination_block cfg env s =
     (if iter_num s > max_iters cfg then final_block cfg env s
      else (case losses s of
              None \<Rightarrow> (Raise NameError, s)
            | Some l \<Rightarrow> if isnan (fst l) then final_block cfg env s else (Continue, s)))"

text \<open>One pass through the body of \<^verbatim>\<open>while True\<close> (lines 293 to 414).\<close>

definition loop_body :: "config \<Rightarrow> env \<Rightarrow> train_state \<Rightarrow> outcome \<times> train_state" where
  "loop_body cfg env s =
     then_do (then_do (then_do (then_do (then_do
       (set_lr cfg s)
       (eval_block cfg env))
       (eval_only_block cfg))
       train_block)
       (log_block cfg env))
       (\<lambda>s'. termination_block cfg env (advance s'))"

text \<open>
  The loop. It ends: a pass that falls through has raised \<open>iter_num\<close> by one and left it
  at most \<open>max_iters\<close>.
\<close>

function train_loop :: "config \<Rightarrow> env \<Rightarrow> train_state \<Rightarrow> outcome \<times> train_state" where
  "train_loop cfg env s =
     (if fst (loop_body cfg env s) = Continue
      then train_loop cfg env (snd (loop_body cfg env s))
      else loop_body cfg env s)"
  by pat_completeness auto
termination
proof (relation "measure (\<lambda>(cfg, env, s). nat (max_iters cfg + 1 - iter_num s))")
  show "wf (measure (\<lambda>(cfg, env, s). nat (max_iters cfg + 1 - iter_num s)))"
    by simp
next
  fix cfg :: config and env :: env and s :: train_state
  assume c: "fst (loop_body cfg env s) = Continue"
  have td: "\<And>r f. fst (then_do r f) = Continue \<Longrightarrow> fst r = Continue \<and> then_do r f = f (snd r)"
    by (simp add: then_do_def split: if_splits)
  have i1: "\<And>t. iter_num (snd (set_lr cfg t)) = iter_num t"
    by (simp add: set_lr_def split: sum.splits)
  have i2: "\<And>t. iter_num (snd (eval_block cfg env t)) = iter_num t"
    by (simp add: eval_block_def emit_def Let_def)
  have i3: "\<And>t. iter_num (snd (eval_only_block cfg t)) = iter_num t"
    by (simp add: eval_only_block_def)
  have i4: "\<And>t. iter_num (snd (train_block t)) = iter_num t"
    by (simp add: train_block_def emit_def)
  have i5: "\<And>t. iter_num (snd (log_block cfg env t)) = iter_num t"
    by (simp add: log_block_def emit_def Let_def split: option.splits)
  have fb: "\<And>t. fst (final_block cfg env t) \<noteq> Continue"
    by (simp add: final_block_def Let_def split: option.splits)
  have i6: "\<And>t. fst (termination_block cfg env t) = Continue \<Longrightarrow>
              snd (termination_block cfg env t) = t \<and> iter_num t \<le> max_iters cfg"
    using fb by (auto simp: termination_block_def split: if_splits option.splits)
  define r1 where "r1 = set_lr cfg s"
  define r2 where "r2 = then_do r1 (eval_block cfg env)"
  define r3 where "r3 = then_do r2 (eval_only_block cfg)"
  define r4 where "r4 = then_do r3 train_block"
  define r5 where "r5 = then_do r4 (log_block cfg env)"
  have lb: "loop_body cfg env s = then_do r5 (\<lambda>s'. termination_block cfg env (advance s'))"
    by (simp add: loop_body_def r1_def r2_def r3_def r4_def r5_def)
  from c lb td [of r5 "\<lambda>s'. termination_block cfg env (advance s')"]
  have c5: "fst r5 = Continue"
    and e6: "loop_body cfg env s = termination_block cfg env (advance (snd r5))"
    by simp_all
  from c5 td [of r4 "log_block cfg env"]
  have c4: "fst r4 = Continue" and e5: "r5 = log_block cfg env (snd r4)"
    by (simp_all add: r5_def)
  from c4 td [of r3 train_block]
  have c3: "fst r3 = Continue" and e4: "r4 = train_block (snd r3)"
    by (simp_all add: r4_def)
  from c3 td [of r2 "eval_only_block cfg"]
  have c2: "fst r2 = Continue" and e3: "r3 = eval_only_block cfg (snd r2)"
    by (simp_all add: r3_def)
  from c2 td [of r1 "eval_block cfg env"]
  have c1: "fst r1 = Continue" and e2: "r2 = eval_block cfg env (snd r1)"
    by (simp_all add: r2_def)
  have "iter_num (snd r5) = iter_num s"
    by (simp add: e5 e4 e3 e2 r1_def i1 i2 i3 i4 i5)
  then have a: "iter_num (advance (snd r5)) = iter_num s + 1"
    by (simp add: advance_def)
  from c e6 i6 have "snd (loop_body cfg env s) = advance (snd r5)
                     \<and> iter_num (advance (snd r5)) \<le> max_iters cfg"
    by simp
  with a have "iter_num (snd (loop_body cfg env s)) = iter_num s + 1
               \<and> iter_num s + 1 \<le> max_iters cfg"
    by simp
  then show "((cfg, env, snd (loop_body cfg env s)), (cfg, env, s))
             \<in> measure (\<lambda>(cfg, env, s). nat (max_iters cfg + 1 - iter_num s))"
    by simp
qed

declare train_loop.simps [simp del]

text \<open>
  The first \<open>n\<close> passes through the body of the loop, from the state \<open>s\<close>: the points
  of a run at which the loop condition is met again.
\<close>

fun passes :: "config \<Rightarrow> env \<Rightarrow> nat \<Rightarrow> train_state \<Rightarrow> outcome \<times> train_state" where
  "passes cfg env 0 s = (Continue, s)"
| "passes cfg env (Suc n) s = then_do (passes cfg env n s) (loop_body cfg env)"

section \<open>Start of the script\<close>

text \<open>Lines 152 to 153, and the counters the loop starts from.\<close>

definition start_state :: train_state where
  "start_state =
     \<lparr> iter_num = 0, local_iter_num = 0, best_val_loss = Finite 1000000000, lr = 0,
       losses = None, lossf = None, n_est = 0, trace = [] \<rparr>"

text \<open>
  Lines 167 to 206: a resumed run takes \<open>iter_num\<close> and \<open>best_val_loss\<close> from the
  checkpoint. With a value of \<^verbatim>\<open>init_from\<close> that matches no branch, \<^verbatim>\<open>model\<close> is
  unbound at line 208.
\<close>

definition model_init :: "config \<Rightarrow> env \<Rightarrow> train_state \<Rightarrow> outcome \<times> train_state" where
  "model_init cfg env s =
     (if init_from cfg = ''scratch'' then (Continue, s)
      else if init_from cfg = ''resume'' then
        (Continue, s\<lparr>iter_num := ckpt_iter_num env, best_val_loss := ckpt_best_val_loss env\<rparr>)
      else if take 4 (init_from cfg) = ''gpt2'' then (Continue, s)
      else (Raise NameError, s))"

text \<open>
  Lines 98 to 123: the assertion on the two ablation flags, the assertion of a
  distributed run, the output directory of the master process.
\<close>

definition process_init :: "config \<Rightarrow> train_state \<Rightarrow> outcome \<times> train_state" where
  "process_init cfg s =
     (if adam cfg \<and> hyperadam cfg then (Raise AssertionError, s)
      else if ddp cfg \<and> world_size cfg = 0 then (Raise ZeroDivisionError, s)
      else if ddp cfg \<and> gradient_accumulation_steps cfg mod world_size cfg \<noteq> 0
        then (Raise AssertionError, s)
      else if master_process cfg then (Continue, emit [MakeDirs] s)
      else (Continue, s))"

text \<open>Lines 267 to 272: experiment tracking and the very first batch.\<close>

definition first_batch :: "config \<Rightarrow> train_state \<Rightarrow> outcome \<times> train_state" where
  "first_batch cfg s =
     (Continue, emit [BatchRead]
        (if wandb_log cfg \<and> master_process cfg then emit [WandbInit] s else s))"

text \<open>The script from line 98 to its end.\<close>

definition train_script :: "config \<Rightarrow> env \<Rightarrow> outcome \<times> train_state" where
  "train_script cfg env =
     then_do (then_do (then_do
       (process_init cfg start_state)
       (model_init cfg env))
       (first_batch cfg))
       (train_loop cfg env)"

section \<open>Observations of a run\<close>

text \<open>
  The checkpoints that a trace records, oldest first, each with its iteration and the
  best validation loss stored in it.
\<close>

fun checkpoints :: "event list \<Rightarrow> (int \<times> pyfloat) list" where
  "checkpoints [] = []"
| "checkpoints (Checkpoint i b # es) = (i, b) # checkpoints es"
| "checkpoints (e # es) = checkpoints es"

text \<open>The validation losses of the periodic evaluations (line 305) of a trace, oldest first.\<close>

fun periodic_vals :: "event list \<Rightarrow> pyfloat list" where
  "periodic_vals [] = []"
| "periodic_vals (Eval i t v # es) = v # periodic_vals es"
| "periodic_vals (e # es) = periodic_vals es"

text \<open>
  The best value observed, in the words of the specification: the smallest of \<open>b\<close> and
  the values \<open>vs\<close> under the comparison \<^verbatim>\<open><\<close> of floats, the earlier value kept on a tie
  or when the comparison is false.
\<close>

fun running_best :: "pyfloat \<Rightarrow> pyfloat list \<Rightarrow> pyfloat" where
  "running_best b [] = b"
| "running_best b (v # vs) = running_best (if pf_lt v b then v else b) vs"

section \<open>Concrete inputs\<close>

text \<open>
  A run that evaluates in every iteration and stops after the second one; collaborators
  whose first evaluation gives the validation loss 1 and every later one 2; collaborators
  whose first evaluation gives a training loss that is NaN, or infinite; both ablation
  flags set; and the second process of a distributed run of two that is to stop after
  its first iteration.
\<close>

definition first_eval_config :: config where
  "first_eval_config = default_config\<lparr>eval_interval := 1, max_iters := 1\<rparr>"

definition env_example :: env where
  "env_example =
     \<lparr> estimate_loss = (\<lambda>k. if k = 0 then (Finite 3, Finite 1) else (Finite 3, Finite 2)),
       batch_loss = (\<lambda>i. Finite 3), ckpt_iter_num = 0, ckpt_best_val_loss = Finite 1 \<rparr>"

definition nan_env :: env where
  "nan_env = env_example\<lparr>estimate_loss :=
     (\<lambda>k. if k = 0 then (NaN, Finite 1) else (Finite 3, Finite 2))\<rparr>"

definition inf_env :: env where
  "inf_env = env_example\<lparr>estimate_loss :=
     (\<lambda>k. if k = 0 then (PosInf, Finite 1) else (Finite 3, Finite 2))\<rparr>"

definition both_modes_config :: config where
  "both_modes_config = default_config\<lparr>adam := True, hyperadam := True\<rparr>"

definition worker_config :: config where
  "worker_config =
     default_config\<lparr>rank := 1, world_size := 2, gradient_accumulation_steps := 2,
                      max_iters := 0\<rparr>"

text \<open>
  A run like the first one with \<open>always_save_checkpoint\<close> off, and collaborators whose
  validation losses are \<open>2e9\<close>, then 2, then 1.
\<close>

definition quiet_config :: config where
  "quiet_config = first_eval_config\<lparr>always_save_checkpoint := False\<rparr>"

definition descending_env :: env where
  "descending_env = env_example\<lparr>estimate_loss :=
     (\<lambda>k. if k = 0 then (Finite 3, Finite 2000000000)
          else if k = Suc 0 then (Finite 3, Finite 2)
          else (Finite 3, Finite 1))\<rparr>"

text \<open>
  A hyperparameter set after a backward pass, with the seven names that the script
  hands to the meta-optimizer (line 280), and three model parameters: a matrix, a
  frozen matrix and a bias vector.
\<close>

definition hp_example :: hparams where
  "hp_example =
     [(''alpha'', \<lparr>data = 1 / 1000, grad = Some 3, dim = 0, requires_grad = True\<rparr>),
      (''beta1'', \<lparr>data = 9 / 10, grad = Some 2, dim = 0, requires_grad = True\<rparr>),
      (''beta2'', \<lparr>data = 99 / 100, grad = Some 5, dim = 0, requires_grad = True\<rparr>),
      (''beta3'', \<lparr>data = 0, grad = Some 7, dim = 0, requires_grad = True\<rparr>),
      (''rho'', \<lparr>data = 1, grad = Some 4, dim = 0, requires_grad = True\<rparr>),
      (''c'', \<lparr>data = 1, grad = Some 6, dim = 0, requires_grad = True\<rparr>),
      (''gamma'', \<lparr>data = 1, grad = Some 8, dim = 0, requires_grad = True\<rparr>)]"

definition matrix_example :: "real list tensor" where
  "matrix_example = \<lparr>data = [1000, 2000], grad = None, dim = 2, requires_grad = True\<rparr>"

definition frozen_example :: "real list tensor" where
  "frozen_example = \<lparr>data = [1000, 2000], grad = None, dim = 2, requires_grad = False\<rparr>"

definition bias_example :: "real list tensor" where
  "bias_example = \<lparr>data = [1000], grad = None, dim = 1, requires_grad = True\<rparr>"

section \<open>Properties of the schedule\<close>

lemma decay_ratio_bounds:
  assumes "warmup_iters cfg \<le> it" and "it \<le> lr_decay_iters cfg"
    and "warmup_iters cfg < lr_decay_iters cfg"
  shows "0 \<le> decay_ratio cfg it \<and> decay_ratio cfg it \<le> 1"
proof -
  have d: "0 < real_of_int (lr_decay_iters cfg - warmup_iters cfg)"
    using assms(3) by simp
  have n0: "0 \<le> real_of_int (it - warmup_iters cfg)"
    using assms(1) by simp
  have n1: "real_of_int (it - warmup_iters cfg)
            \<le> real_of_int (lr_decay_iters cfg - warmup_iters cfg)"
    using assms(2) by simp
  show ?thesis
    unfolding decay_ratio_def using d n0 n1 by (simp add: divide_le_eq)
qed

lemma get_lr_middle:
  assumes "warmup_iters cfg \<le> it" and "it \<le> lr_decay_iters cfg"
    and "warmup_iters cfg < lr_decay_iters cfg"
  shows "get_lr cfg it =
           Inr (min_lr cfg + (0.5 * (1.0 + cos (pi * decay_ratio cfg it)))
                             * (learning_rate cfg - min_lr cfg))"
  using assms decay_ratio_bounds [OF assms] by (simp add: get_lr_def)

lemma get_lr_warmup:
  assumes "0 \<le> it" and "it < warmup_iters cfg"
  shows "get_lr cfg it = Inr (learning_rate cfg * real_of_int it / real_of_int (warmup_iters cfg))"
  using assms by (simp add: get_lr_def)

lemma get_lr_after:
  assumes "warmup_iters cfg \<le> it" and "lr_decay_iters cfg < it"
  shows "get_lr cfg it = Inr (min_lr cfg)"
  using assms by (simp add: get_lr_def)

text \<open>
  Claim C9. With \<open>warmup_iters < lr_decay_iters\<close>, for every step \<open>it \<ge> 0\<close> the
  assertion of line 262 does not fail: \<^verbatim>\<open>get_lr\<close> returns a rate, and whenever
  the cosine branch runs (\<open>warmup_iters \<le> it \<le> lr_decay_iters\<close>) its \<open>decay_ratio\<close>
  lies in \<open>[0, 1]\<close>.
\<close>

theorem get_lr_assertion_safe:
  assumes "warmup_iters cfg < lr_decay_iters cfg" and "0 \<le> it"
  shows "get_lr cfg it \<noteq> Inl AssertionError
         \<and> (\<exists>r. get_lr cfg it = Inr r)
         \<and> (warmup_iters cfg \<le> it \<and> it \<le> lr_decay_iters cfg
              \<longrightarrow> 0 \<le> decay_ratio cfg it \<and> decay_ratio cfg it \<le> 1)"
proof -
  consider (w) "it < warmup_iters cfg" | (m) "warmup_iters cfg \<le> it" "it \<le> lr_decay_iters cfg"
    | (a) "warmup_iters cfg \<le> it" "lr_decay_iters cfg < it"
    by linarith
  then show ?thesis
  proof cases
    case w
    then show ?thesis using assms get_lr_warmup [of it cfg] by simp
  next
    case m
    then show ?thesis
      using assms get_lr_middle [of cfg it] decay_ratio_bounds [of cfg it] by simp
  next
    case a
    then show ?thesis using get_lr_after [of cfg it] by simp
  qed
qed

theorem get_lr_assertion_safe_witness:
  "warmup_iters default_config < lr_decay_iters default_config \<and> (0::int) \<le> 301000
   \<and> warmup_iters default_config \<le> 301000 \<and> 301000 \<le> lr_decay_iters default_config
   \<and> get_lr default_config 301000 \<noteq> Inl AssertionError
   \<and> 0 \<le> decay_ratio default_config 301000 \<and> decay_ratio default_config 301000 \<le> 1"
  using get_lr_assertion_safe [of default_config 301000]
  by (simp add: default_config_def)

section \<open>Properties of the gradient masking\<close>

lemma map_of_map_entries:
  "map_of (map (\<lambda>(n, p). (n, f n p)) hp) k = map_option (f k) (map_of hp k)"
  by (induction hp) auto

lemma fst_map_entries:
  "map fst (map (\<lambda>(n, p). (n, f n p)) hp) = map fst hp"
  by (induction hp) auto

lemma zero_all_grads_entries:
  "zero_all_grads hp = map (\<lambda>(n, p). (n, p\<lparr>grad := Some 0\<rparr>)) hp"
  by (simp add: zero_all_grads_def zeros_like_def)

lemma zero_grads_except_betas_entries:
  "zero_grads_except_betas hp =
     map (\<lambda>(n, p). (n, if n \<noteq> ''beta1'' \<and> n \<noteq> ''beta2'' then p\<lparr>grad := Some 0\<rparr> else p)) hp"
  unfolding zero_grads_except_betas_def zeros_like_def
  by (rule map_cong) auto

lemma zero_alpha_grad_entries:
  assumes "map_of hp ''alpha'' = Some a" and "grad a = Some g"
  shows "zero_alpha_grad hp =
           Inr (map (\<lambda>(n, p). (n, if n = ''alpha'' then p\<lparr>grad := Some 0\<rparr> else p)) hp)"
proof -
  have e: "map (\<lambda>(n, p). if n = ''alpha'' then (n, p\<lparr>grad := Some (zeros_like g)\<rparr>)
                          else (n, p)) hp
        = map (\<lambda>(n, p). (n, if n = ''alpha'' then p\<lparr>grad := Some 0\<rparr> else p)) hp"
    by (rule map_cong) (auto simp: zeros_like_def)
  have "zero_alpha_grad hp =
          Inr (map (\<lambda>(n, p). if n = ''alpha'' then (n, p\<lparr>grad := Some (zeros_like g)\<rparr>)
                              else (n, p)) hp)"
    using assms by (simp add: zero_alpha_grad_def)
  then show ?thesis
    by (simp only: e)
qed

text \<open>
  Claim C1. After the backward pass has stored a gradient for \<open>alpha\<close>, the masking
  succeeds and keeps the names of the set, and in its result: the gradient of \<open>alpha\<close>
  is zero in every mode; with \<open>adam\<close> every gradient is zero; with \<open>hyperadam\<close> (and
  not \<open>adam\<close>) every gradient except those of \<open>beta1\<close> and \<open>beta2\<close> is zero, and these
  two entries are as before; with neither flag every entry other than \<open>alpha\<close> is as
  before.
\<close>

theorem mask_gradients_postcondition:
  assumes "map_of hp ''alpha'' = Some a" and "grad a = Some g"
  shows "\<exists>hp'. mask_gradients cfg hp = Inr hp'
           \<and> map fst hp' = map fst hp
           \<and> (\<forall>p. map_of hp' ''alpha'' = Some p \<longrightarrow> grad p = Some 0)
           \<and> (adam cfg \<longrightarrow> (\<forall>n p. map_of hp' n = Some p \<longrightarrow> grad p = Some 0))
           \<and> (\<not> adam cfg \<and> hyperadam cfg \<longrightarrow>
                (\<forall>n p. map_of hp' n = Some p \<and> n \<noteq> ''beta1'' \<and> n \<noteq> ''beta2''
                         \<longrightarrow> grad p = Some 0)
                \<and> map_of hp' ''beta1'' = map_of hp ''beta1''
                \<and> map_of hp' ''beta2'' = map_of hp ''beta2'')
           \<and> (\<not> adam cfg \<and> \<not> hyperadam cfg \<longrightarrow>
                (\<forall>n. n \<noteq> ''alpha'' \<longrightarrow> map_of hp' n = map_of hp n))"
proof -
  define hp1 where
    "hp1 = map (\<lambda>(n, p). (n, if n = ''alpha'' then p\<lparr>grad := Some 0\<rparr> else p)) hp"
  have z: "zero_alpha_grad hp = Inr hp1"
    using assms by (simp add: zero_alpha_grad_entries hp1_def)
  have m1: "\<And>k. map_of hp1 k
              = map_option (\<lambda>p. if k = ''alpha'' then p\<lparr>grad := Some 0\<rparr> else p) (map_of hp k)"
    unfolding hp1_def by (rule map_of_map_entries)
  have f1: "map fst hp1 = map fst hp"
    unfolding hp1_def by (rule fst_map_entries)
  show ?thesis
  proof (cases "adam cfg")
    case True
    then have r: "mask_gradients cfg hp = Inr (zero_all_grads hp1)"
      by (simp add: mask_gradients_def z)
    have m: "\<And>k. map_of (zero_all_grads hp1) k
               = map_option (\<lambda>p. p\<lparr>grad := Some 0\<rparr>) (map_of hp1 k)"
      unfolding zero_all_grads_entries by (rule map_of_map_entries)
    have f: "map fst (zero_all_grads hp1) = map fst hp"
      by (simp only: zero_all_grads_entries fst_map_entries f1)
    show ?thesis
      using True r f by (auto simp: m)
  next
    case False
    note na = False
    show ?thesis
    proof (cases "hyperadam cfg")
      case True
      then have r: "mask_gradients cfg hp = Inr (zero_grads_except_betas hp1)"
        using na by (simp add: mask_gradients_def z)
      have m: "\<And>k. map_of (zero_grads_except_betas hp1) k
                 = map_option (\<lambda>p. if k \<noteq> ''beta1'' \<and> k \<noteq> ''beta2''
                                     then p\<lparr>grad := Some 0\<rparr> else p) (map_of hp1 k)"
        unfolding zero_grads_except_betas_entries by (rule map_of_map_entries)
      have f: "map fst (zero_grads_except_betas hp1) = map fst hp"
        by (simp only: zero_grads_except_betas_entries fst_map_entries f1)
      have b1: "map_of (zero_grads_except_betas hp1) ''beta1'' = map_of hp ''beta1''"
        by (simp add: m m1 option.map_ident)
      have b2: "map_of (zero_grads_except_betas hp1) ''beta2'' = map_of hp ''beta2''"
        by (simp add: m m1 option.map_ident)
      have al: "\<forall>p. map_of (zero_grads_except_betas hp1) ''alpha'' = Some p \<longrightarrow> grad p = Some 0"
        by (auto simp: m m1)
      have ot: "\<forall>n p. map_of (zero_grads_except_betas hp1) n = Some p
                  \<and> n \<noteq> ''beta1'' \<and> n \<noteq> ''beta2'' \<longrightarrow> grad p = Some 0"
      proof (intro allI impI)
        fix n p
        assume h: "map_of (zero_grads_except_betas hp1) n = Some p
                   \<and> n \<noteq> ''beta1'' \<and> n \<noteq> ''beta2''"
        then have "map_option (\<lambda>p. p\<lparr>grad := Some 0\<rparr>) (map_of hp1 n) = Some p"
          using m [of n] by auto
        then obtain q where "p = q\<lparr>grad := Some 0\<rparr>"
          by auto
        then show "grad p = Some 0"
          by simp
      qed
      show ?thesis
        using True na r f b1 b2 al ot by simp
    next
      case False
      then have r: "mask_gradients cfg hp = Inr hp1"
        using na by (simp add: mask_gradients_def z)
      have al: "\<forall>p. map_of hp1 ''alpha'' = Some p \<longrightarrow> grad p = Some 0"
        by (auto simp: m1)
      have ot: "\<forall>n. n \<noteq> ''alpha'' \<longrightarrow> map_of hp1 n = map_of hp n"
        by (simp add: m1 option.map_ident)
      show ?thesis
        using False na r f1 al ot by simp
    qed
  qed
qed


theorem mask_gradients_postcondition_witness:
  "map_of hp_example ''alpha''
     = Some \<lparr>data = 1 / 1000, grad = Some 3, dim = 0, requires_grad = True\<rparr>
   \<and> adam (default_config\<lparr>adam := True\<rparr>)
   \<and> map (\<lambda>(n, p). (n, grad p))
        (projr (mask_gradients (default_config\<lparr>adam := True\<rparr>) hp_example))
       = [(''alpha'', Some 0), (''beta1'', Some 0), (''beta2'', Some 0), (''beta3'', Some 0),
          (''rho'', Some 0), (''c'', Some 0), (''gamma'', Some 0)]
   \<and> \<not> adam (default_config\<lparr>hyperadam := True\<rparr>) \<and> hyperadam (default_config\<lparr>hyperadam := True\<rparr>)
   \<and> map (\<lambda>(n, p). (n, grad p))
        (projr (mask_gradients (default_config\<lparr>hyperadam := True\<rparr>) hp_example))
       = [(''alpha'', Some 0), (''beta1'', Some 2), (''beta2'', Some 5), (''beta3'', Some 0),
          (''rho'', Some 0), (''c'', Some 0), (''gamma'', Some 0)]
   \<and> \<not> adam default_config \<and> \<not> hyperadam default_config
   \<and> map (\<lambda>(n, p). (n, grad p)) (projr (mask_gradients default_config hp_example))
       = [(''alpha'', Some 0), (''beta1'', Some 2), (''beta2'', Some 5), (''beta3'', Some 7),
          (''rho'', Some 4), (''c'', Some 6), (''gamma'', Some 8)]"
  using
    mask_gradients_postcondition [of hp_example
      "\<lparr>data = 1 / 1000, grad = Some 3, dim = 0, requires_grad = True\<rparr>" 3
      "default_config\<lparr>adam := True\<rparr>"]
    mask_gradients_postcondition [of hp_example
      "\<lparr>data = 1 / 1000, grad = Some 3, dim = 0, requires_grad = True\<rparr>" 3
      "default_config\<lparr>hyperadam := True\<rparr>"]
    mask_gradients_postcondition [of hp_example
      "\<lparr>data = 1 / 1000, grad = Some 3, dim = 0, requires_grad = True\<rparr>" 3
      default_config]
  by (simp add: hp_example_def default_config_def mask_gradients_def zero_alpha_grad_def
        zero_all_grads_def zero_grads_except_betas_def zeros_like_def)

section \<open>Properties of the weight decay\<close>

lemma manual_weight_decay_with_alpha:
  assumes "map_of hp ''alpha'' = Some a"
  shows "manual_weight_decay cfg hp ps =
           Inr (map (\<lambda>p. if dim p \<ge> 2 \<and> requires_grad p
                          then p\<lparr>data := map (\<lambda>w. w - data a * weight_decay cfg * w) (data p)\<rparr>
                          else p) ps)"
  using assms by (induction ps) simp_all

lemma manual_weight_decay_frame:
  assumes "manual_weight_decay cfg hp ps = Inr ps'"
  shows "length ps' = length ps
         \<and> (\<forall>i < length ps. \<not> (dim (ps ! i) \<ge> 2 \<and> requires_grad (ps ! i)) \<longrightarrow> ps' ! i = ps ! i)"
  using assms
proof (induction ps arbitrary: ps')
  case Nil
  then show ?case by simp
next
  case (Cons p ps)
  from Cons.prems obtain qs where q: "manual_weight_decay cfg hp ps = Inr qs"
    by (auto split: if_splits option.splits sum.splits)
  from Cons.IH [OF q] have ih: "length qs = length ps"
    "\<forall>i < length ps. \<not> (dim (ps ! i) \<ge> 2 \<and> requires_grad (ps ! i)) \<longrightarrow> qs ! i = ps ! i"
    by simp_all
  from Cons.prems q obtain p' where p': "ps' = p' # qs"
    and keep: "\<not> (dim p \<ge> 2 \<and> requires_grad p) \<longrightarrow> p' = p"
    by (auto split: if_splits option.splits)
  show ?case
  proof (intro conjI allI impI)
    show "length ps' = length (p # ps)"
      using p' ih(1) by simp
  next
    fix i
    assume "i < length (p # ps)"
      and "\<not> (dim ((p # ps) ! i) \<ge> 2 \<and> requires_grad ((p # ps) ! i))"
    then show "ps' ! i = (p # ps) ! i"
      using p' keep ih(2) by (cases i) auto
  qed
qed

text \<open>
  Claim C3, as amended. With \<open>a\<close> the value held under \<open>alpha\<close> in the hyperparameter
  set, the decay step returns, and every parameter of rank at least 2 that requires
  gradients goes from \<open>w\<close> to \<open>w - a * weight_decay * w\<close>, value by value; with
  \<open>weight_decay = 0\<close> the step leaves every parameter as it was.
\<close>

theorem weight_decay_on_trainable_matrices:
  assumes "map_of hp ''alpha'' = Some a"
  shows "\<exists>ps'. manual_weight_decay cfg hp ps = Inr ps'
           \<and> length ps' = length ps
           \<and> (\<forall>i < length ps. dim (ps ! i) \<ge> 2 \<and> requires_grad (ps ! i) \<longrightarrow>
                 data (ps' ! i) = map (\<lambda>w. w - data a * weight_decay cfg * w) (data (ps ! i)))
           \<and> (weight_decay cfg = 0 \<longrightarrow> ps' = ps)"
proof -
  define f where
    "f = (\<lambda>p :: real list tensor. if dim p \<ge> 2 \<and> requires_grad p
            then p\<lparr>data := map (\<lambda>w. w - data a * weight_decay cfg * w) (data p)\<rparr> else p)"
  have r: "manual_weight_decay cfg hp ps = Inr (map f ps)"
    unfolding f_def using assms by (rule manual_weight_decay_with_alpha)
  have d: "\<forall>i < length ps. dim (ps ! i) \<ge> 2 \<and> requires_grad (ps ! i) \<longrightarrow>
             data (map f ps ! i) = map (\<lambda>w. w - data a * weight_decay cfg * w) (data (ps ! i))"
    by (simp add: f_def)
  have z: "weight_decay cfg = 0 \<longrightarrow> map f ps = ps"
  proof
    assume "weight_decay cfg = 0"
    then have "\<And>p. f p = p"
      by (simp add: f_def)
    then show "map f ps = ps"
      by (simp add: map_idI)
  qed
  show ?thesis
    using r d z by simp
qed

theorem weight_decay_on_trainable_matrices_witness:
  "map_of hp_example ''alpha''
     = Some \<lparr>data = 1 / 1000, grad = Some 3, dim = 0, requires_grad = True\<rparr>
   \<and> (0::nat) < length [matrix_example, frozen_example, bias_example]
   \<and> dim ([matrix_example, frozen_example, bias_example] ! 0) \<ge> 2
   \<and> requires_grad ([matrix_example, frozen_example, bias_example] ! 0)
   \<and> map data (projr (manual_weight_decay default_config hp_example
                         [matrix_example, frozen_example, bias_example]))
       = [[9999 / 10, 19998 / 10], [1000, 2000], [1000]]
   \<and> weight_decay (default_config\<lparr>weight_decay := 0\<rparr>) = 0
   \<and> projr (manual_weight_decay (default_config\<lparr>weight_decay := 0\<rparr>) hp_example
              [matrix_example, frozen_example, bias_example])
       = [matrix_example, frozen_example, bias_example]"
  using
    weight_decay_on_trainable_matrices [of hp_example
      "\<lparr>data = 1 / 1000, grad = Some 3, dim = 0, requires_grad = True\<rparr>"
      default_config "[matrix_example, frozen_example, bias_example]"]
    weight_decay_on_trainable_matrices [of hp_example
      "\<lparr>data = 1 / 1000, grad = Some 3, dim = 0, requires_grad = True\<rparr>"
      "default_config\<lparr>weight_decay := 0\<rparr>" "[matrix_example, frozen_example, bias_example]"]
  by (simp add: hp_example_def default_config_def matrix_example_def frozen_example_def
        bias_example_def)

text \<open>
  A matrix with \<^verbatim>\<open>requires_grad == False\<close> is not decayed, whatever its rank: the
  claim without that condition fails on it.
\<close>

theorem weight_decay_frozen_counterexample:
  "dim frozen_example \<ge> 2
   \<and> map_of hp_example ''alpha''
       = Some \<lparr>data = 1 / 1000, grad = Some 3, dim = 0, requires_grad = True\<rparr>
   \<and> manual_weight_decay default_config hp_example [frozen_example] = Inr [frozen_example]
   \<and> data frozen_example
       \<noteq> map (\<lambda>w. w - (1 / 1000) * weight_decay default_config * w) (data frozen_example)"
  by (simp add: hp_example_def default_config_def frozen_example_def)

text \<open>
  Claim C10. The decay step changes a parameter only if it has rank at least 2 and
  requires gradients: a parameter that does not require gradients, or whose rank is
  below 2, comes out as it went in.
\<close>

theorem weight_decay_frame:
  assumes "manual_weight_decay cfg hp ps = Inr ps'"
  shows "length ps' = length ps
         \<and> (\<forall>i < length ps. \<not> requires_grad (ps ! i) \<or> dim (ps ! i) < 2 \<longrightarrow> ps' ! i = ps ! i)
         \<and> (\<forall>i < length ps. ps' ! i \<noteq> ps ! i \<longrightarrow> dim (ps ! i) \<ge> 2 \<and> requires_grad (ps ! i))"
  using manual_weight_decay_frame [OF assms] by (auto simp: not_le)

theorem weight_decay_frame_witness:
  "manual_weight_decay default_config hp_example [matrix_example, frozen_example, bias_example]
     = Inr [matrix_example\<lparr>data := [9999 / 10, 19998 / 10]\<rparr>, frozen_example, bias_example]
   \<and> (1::nat) < length [matrix_example, frozen_example, bias_example]
   \<and> \<not> requires_grad ([matrix_example, frozen_example, bias_example] ! 1)
   \<and> dim ([matrix_example, frozen_example, bias_example] ! 1) \<ge> 2
   \<and> [matrix_example\<lparr>data := [9999 / 10, 19998 / 10]\<rparr>, frozen_example, bias_example] ! 1
       = frozen_example
   \<and> (2::nat) < length [matrix_example, frozen_example, bias_example]
   \<and> dim ([matrix_example, frozen_example, bias_example] ! 2) < 2
   \<and> [matrix_example\<lparr>data := [9999 / 10, 19998 / 10]\<rparr>, frozen_example, bias_example] ! 2
       = bias_example
   \<and> [matrix_example\<lparr>data := [9999 / 10, 19998 / 10]\<rparr>, frozen_example, bias_example] ! 0
       \<noteq> matrix_example
   \<and> dim matrix_example \<ge> 2 \<and> requires_grad matrix_example"
  using weight_decay_frame [of default_config hp_example
      "[matrix_example, frozen_example, bias_example]"
      "[matrix_example\<lparr>data := [9999 / 10, 19998 / 10]\<rparr>, frozen_example, bias_example]"]
  by (simp add: hp_example_def default_config_def matrix_example_def frozen_example_def
        bias_example_def)

section \<open>Properties of the training loop\<close>

lemma checkpoints_append: "checkpoints (xs @ ys) = checkpoints xs @ checkpoints ys"
  by (induction xs rule: checkpoints.induct) simp_all

lemma periodic_vals_append: "periodic_vals (xs @ ys) = periodic_vals xs @ periodic_vals ys"
  by (induction xs rule: periodic_vals.induct) simp_all

lemma set_lr_ok:
  "scheduled_lr cfg (iter_num s) = Inr r \<Longrightarrow> set_lr cfg s = (Continue, s\<lparr>lr := r\<rparr>)"
  by (simp add: set_lr_def)

lemma eval_block_skip:
  "eval_interval cfg \<noteq> 0 \<Longrightarrow> \<not> (iter_num s mod eval_interval cfg = 0 \<and> master_process cfg)
     \<Longrightarrow> eval_block cfg env s = (Continue, s)"
  by (auto simp: eval_block_def)

lemma eval_block_run:
  assumes "eval_interval cfg \<noteq> 0" and "iter_num s mod eval_interval cfg = 0"
    and "master_process cfg"
  shows "eval_block cfg env s =
     (Continue,
      s\<lparr>losses := Some (estimate_loss env (n_est s)), n_est := Suc (n_est s),
        best_val_loss :=
          (if pf_lt (snd (estimate_loss env (n_est s))) (best_val_loss s)
                \<or> always_save_checkpoint cfg
           then snd (estimate_loss env (n_est s)) else best_val_loss s),
        trace := trace s
          @ [Eval (iter_num s) (fst (estimate_loss env (n_est s)))
               (snd (estimate_loss env (n_est s)))]
          @ (if wandb_log cfg then [WandbLog (iter_num s)] else [])
          @ (if (pf_lt (snd (estimate_loss env (n_est s))) (best_val_loss s)
                   \<or> always_save_checkpoint cfg) \<and> 0 < iter_num s
             then [Checkpoint (iter_num s) (snd (estimate_loss env (n_est s)))] else [])\<rparr>)"
  using assms by (simp add: eval_block_def emit_def Let_def)

lemma eval_block_fst: "eval_interval cfg \<noteq> 0 \<Longrightarrow> fst (eval_block cfg env s) = Continue"
  by (simp add: eval_block_def Let_def)

lemma eval_block_iter_num: "iter_num (snd (eval_block cfg env s)) = iter_num s"
  by (simp add: eval_block_def emit_def Let_def)

lemma loop_body_after_eval:
  assumes "scheduled_lr cfg (iter_num s) = Inr r" and "eval_interval cfg \<noteq> 0"
  shows "loop_body cfg env s =
     (if iter_num s = 0 \<and> eval_only cfg then (Break, snd (eval_block cfg env (s\<lparr>lr := r\<rparr>)))
      else then_do
             (log_block cfg env
                (emit [ForwardBackward (iter_num s), BatchRead, OptimizerStep (iter_num s)]
                   (snd (eval_block cfg env (s\<lparr>lr := r\<rparr>)))))
             (\<lambda>s'. termination_block cfg env (advance s')))"
  using assms
  by (simp add: loop_body_def set_lr_ok then_do_def eval_block_fst eval_only_block_def
        train_block_def eval_block_iter_num)

lemma eval_block_checkpoints:
  assumes "eval_interval cfg \<noteq> 0"
  shows "checkpoints (trace (snd (eval_block cfg env s))) =
     checkpoints (trace s)
     @ (if iter_num s mod eval_interval cfg = 0 \<and> master_process cfg
           \<and> (pf_lt (snd (estimate_loss env (n_est s))) (best_val_loss s)
                \<or> always_save_checkpoint cfg)
           \<and> 0 < iter_num s
        then [(iter_num s, snd (estimate_loss env (n_est s)))] else [])"
proof (cases "iter_num s mod eval_interval cfg = 0 \<and> master_process cfg")
  case True
  then show ?thesis
    using assms by (simp add: eval_block_run checkpoints_append)
next
  case False
  then show ?thesis
    using assms eval_block_skip [of cfg s env] by auto
qed

lemma log_block_checkpoints:
  "checkpoints (trace (snd (log_block cfg env t))) = checkpoints (trace t)"
  by (simp add: log_block_def emit_def Let_def checkpoints_append split: option.splits)

lemma termination_block_checkpoints:
  "checkpoints (trace (snd (termination_block cfg env (advance t)))) = checkpoints (trace t)"
  by (simp add: termination_block_def final_block_def advance_def emit_def Let_def
        checkpoints_append split: option.splits)

lemma tail_checkpoints:
  "checkpoints (trace (snd (then_do (log_block cfg env t)
        (\<lambda>s'. termination_block cfg env (advance s'))))) = checkpoints (trace t)"
  by (simp add: then_do_def termination_block_checkpoints log_block_checkpoints)

text \<open>
  Claim C4, as amended. In a pass of the loop that gets its learning rate, with
  \<open>eval_interval\<close> not zero, one checkpoint is written if the iteration number is a
  multiple of \<open>eval_interval\<close>, the process is the master process, the validation loss
  just measured is below \<open>best_val_loss\<close> or \<open>always_save_checkpoint\<close> is set, and the
  iteration number is greater than 0; it holds that iteration number and that
  validation loss. Otherwise the pass writes no checkpoint.
\<close>

theorem checkpoint_trigger:
  assumes "scheduled_lr cfg (iter_num s) = Inr r" and "eval_interval cfg \<noteq> 0"
  shows "checkpoints (trace (snd (loop_body cfg env s))) =
     checkpoints (trace s)
     @ (if iter_num s mod eval_interval cfg = 0 \<and> master_process cfg
           \<and> (pf_lt (snd (estimate_loss env (n_est s))) (best_val_loss s)
                \<or> always_save_checkpoint cfg)
           \<and> 0 < iter_num s
        then [(iter_num s, snd (estimate_loss env (n_est s)))] else [])"
proof -
  have e: "checkpoints (trace (snd (eval_block cfg env (s\<lparr>lr := r\<rparr>)))) =
     checkpoints (trace s)
     @ (if iter_num s mod eval_interval cfg = 0 \<and> master_process cfg
           \<and> (pf_lt (snd (estimate_loss env (n_est s))) (best_val_loss s)
                \<or> always_save_checkpoint cfg)
           \<and> 0 < iter_num s
        then [(iter_num s, snd (estimate_loss env (n_est s)))] else [])"
    using eval_block_checkpoints [OF assms(2), of env "s\<lparr>lr := r\<rparr>"] by simp
  show ?thesis
  proof (cases "iter_num s = 0 \<and> eval_only cfg")
    case True
    then show ?thesis
      using e by (simp add: loop_body_after_eval [OF assms])
  next
    case False
    then have "loop_body cfg env s =
        then_do
          (log_block cfg env
             (emit [ForwardBackward (iter_num s), BatchRead, OptimizerStep (iter_num s)]
                (snd (eval_block cfg env (s\<lparr>lr := r\<rparr>)))))
          (\<lambda>s'. termination_block cfg env (advance s'))"
      by (auto simp: loop_body_after_eval [OF assms])
    then have "checkpoints (trace (snd (loop_body cfg env s)))
               = checkpoints (trace (emit [ForwardBackward (iter_num s), BatchRead,
                                            OptimizerStep (iter_num s)]
                                       (snd (eval_block cfg env (s\<lparr>lr := r\<rparr>)))))"
      by (simp only: tail_checkpoints)
    also have "\<dots> = checkpoints (trace (snd (eval_block cfg env (s\<lparr>lr := r\<rparr>))))"
      by (simp add: emit_def checkpoints_append)
    finally show ?thesis
      using e by simp
  qed
qed

lemmas loop_defs =
  loop_body_def set_lr_def scheduled_lr_def get_lr_def eval_block_def eval_only_block_def
  train_block_def log_block_def advance_def termination_block_def final_block_def
  results_file_def then_do_def emit_def master_process_def ddp_def Let_def

lemma scheduled_lr_first_eval_1:
  "scheduled_lr first_eval_config 1 = Inr (3 / 10000000)"
  by (simp add: scheduled_lr_def get_lr_def first_eval_config_def default_config_def)

lemma scheduled_lr_default_start:
  "scheduled_lr default_config (iter_num start_state) = Inr 0"
  by (simp add: scheduled_lr_def get_lr_def default_config_def start_state_def)

theorem checkpoint_trigger_witness:
  "scheduled_lr first_eval_config (iter_num (start_state\<lparr>iter_num := 1, n_est := 1\<rparr>))
     = Inr (3 / 10000000)
   \<and> eval_interval first_eval_config \<noteq> 0
   \<and> checkpoints (trace (snd (loop_body first_eval_config env_example
                                  (start_state\<lparr>iter_num := 1, n_est := 1\<rparr>))))
       = [(1, Finite 2)]"
  using checkpoint_trigger [of first_eval_config "start_state\<lparr>iter_num := 1, n_est := 1\<rparr>"
      "3 / 10000000" env_example] scheduled_lr_first_eval_1
  by (simp add: first_eval_config_def default_config_def env_example_def start_state_def
        master_process_def ddp_def)

text \<open>
  At iteration 0 the three conditions of the claim hold with the defaults of the
  script, and the pass writes no checkpoint: line 317 asks for \<open>iter_num > 0\<close>.
\<close>

theorem checkpoint_first_iteration_counterexample:
  "iter_num start_state mod eval_interval default_config = 0
   \<and> master_process default_config
   \<and> always_save_checkpoint default_config
   \<and> fst (loop_body default_config env_example start_state) = Continue
   \<and> periodic_vals (trace (snd (loop_body default_config env_example start_state))) = [Finite 1]
   \<and> checkpoints (trace (snd (loop_body default_config env_example start_state))) = []"
  by (simp add: loop_defs default_config_def start_state_def env_example_def)

text \<open>
  Claim C7. With both \<open>adam\<close> and \<open>hyperadam\<close> set the script stops with the
  \<^verbatim>\<open>AssertionError\<close> of line 98, and its trace is empty: no batch has been read and
  no step of the loop has run.
\<close>

theorem both_modes_fail_fast:
  assumes "adam cfg" and "hyperadam cfg"
  shows "train_script cfg env = (Raise AssertionError, start_state)
         \<and> trace (snd (train_script cfg env)) = []"
  using assms by (simp add: train_script_def process_init_def then_do_def start_state_def)

theorem both_modes_fail_fast_witness:
  "adam both_modes_config \<and> hyperadam both_modes_config
   \<and> fst (train_script both_modes_config env_example) = Raise AssertionError
   \<and> BatchRead \<notin> set (trace (snd (train_script both_modes_config env_example)))"
  using both_modes_fail_fast [of both_modes_config env_example]
  by (simp add: both_modes_config_def default_config_def start_state_def)

lemma final_block_bound:
  assumes "lossf t = Some f"
  shows "final_block cfg env t =
     (Break,
      t\<lparr>losses := Some (estimate_loss env (n_est t)), n_est := Suc (n_est t),
        trace := trace t
          @ [FinalEval (fst (estimate_loss env (n_est t))) (snd (estimate_loss env (n_est t))),
             Summary]
          @ (if hypergrad cfg
             then [ResultsWrite (results_file cfg) (fst (estimate_loss env (n_est t)))
                     (snd (estimate_loss env (n_est t)))]
             else [])\<rparr>)"
  using assms by (simp add: final_block_def emit_def Let_def)

lemma final_block_unbound:
  assumes "lossf t = None"
  shows "final_block cfg env t =
     (Raise NameError,
      t\<lparr>losses := Some (estimate_loss env (n_est t)), n_est := Suc (n_est t),
        trace := trace t
          @ [FinalEval (fst (estimate_loss env (n_est t)))
               (snd (estimate_loss env (n_est t)))]\<rparr>)"
  using assms by (simp add: final_block_def emit_def Let_def)

text \<open>
  Claim C5, as amended. Let a pass of the loop on the master process evaluate (the
  iteration number is a multiple of \<open>eval_interval\<close>) and get a training loss that is
  NaN, in a run that does not stop at line 332 and in which \<open>lossf\<close> is bound when
  the summary is printed. Then the pass finishes its training step and its log line,
  evaluates exactly once more, prints the summary, appends the results row if
  \<open>hypergrad\<close> is set, and leaves the loop with \<^verbatim>\<open>break\<close>: the loop ends with this
  pass, and \<open>iter_num\<close> has been raised once.
\<close>

theorem nan_train_loss_stops_loop:
  assumes "scheduled_lr cfg (iter_num s) = Inr r"
    and "eval_interval cfg \<noteq> 0" and "iter_num s mod eval_interval cfg = 0"
    and "master_process cfg"
    and "isnan (fst (estimate_loss env (n_est s)))"
    and "\<not> (iter_num s = 0 \<and> eval_only cfg)"
    and "log_interval cfg \<noteq> 0"
    and "iter_num s mod log_interval cfg = 0 \<or> lossf s \<noteq> None"
  shows "loop_body cfg env s = train_loop cfg env s
     \<and> fst (train_loop cfg env s) = Break
     \<and> iter_num (snd (train_loop cfg env s)) = iter_num s + 1
     \<and> trace (snd (train_loop cfg env s)) =
         trace s
         @ [Eval (iter_num s) (fst (estimate_loss env (n_est s)))
              (snd (estimate_loss env (n_est s)))]
         @ (if wandb_log cfg then [WandbLog (iter_num s)] else [])
         @ (if (pf_lt (snd (estimate_loss env (n_est s))) (best_val_loss s)
                  \<or> always_save_checkpoint cfg) \<and> 0 < iter_num s
            then [Checkpoint (iter_num s) (snd (estimate_loss env (n_est s)))] else [])
         @ [ForwardBackward (iter_num s), BatchRead, OptimizerStep (iter_num s)]
         @ (if iter_num s mod log_interval cfg = 0 then [Log (iter_num s)] else [])
         @ [FinalEval (fst (estimate_loss env (Suc (n_est s))))
              (snd (estimate_loss env (Suc (n_est s)))), Summary]
         @ (if hypergrad cfg
            then [ResultsWrite (results_file cfg) (fst (estimate_loss env (Suc (n_est s))))
                    (snd (estimate_loss env (Suc (n_est s))))]
            else [])"
proof -
  define s2 where "s2 = snd (eval_block cfg env (s\<lparr>lr := r\<rparr>))"
  define s3 where
    "s3 = emit [ForwardBackward (iter_num s), BatchRead, OptimizerStep (iter_num s)] s2"
  define s4 where
    "s4 = (if iter_num s mod log_interval cfg = 0
           then emit [Log (iter_num s)] (s3\<lparr>lossf := Some (batch_loss env (iter_num s))\<rparr>)
           else s3)"
  have e2: "eval_block cfg env (s\<lparr>lr := r\<rparr>) = (Continue, s2)"
    using assms(2) by (simp add: s2_def eval_block_fst prod_eq_iff)
  have p2: "losses s2 = Some (estimate_loss env (n_est s))" "n_est s2 = Suc (n_est s)"
    "iter_num s2 = iter_num s" "lossf s2 = lossf s"
    "trace s2 = trace s
         @ [Eval (iter_num s) (fst (estimate_loss env (n_est s)))
              (snd (estimate_loss env (n_est s)))]
         @ (if wandb_log cfg then [WandbLog (iter_num s)] else [])
         @ (if (pf_lt (snd (estimate_loss env (n_est s))) (best_val_loss s)
                  \<or> always_save_checkpoint cfg) \<and> 0 < iter_num s
            then [Checkpoint (iter_num s) (snd (estimate_loss env (n_est s)))] else [])"
    using assms(2,3,4) eval_block_run [of cfg "s\<lparr>lr := r\<rparr>" env]
    by (simp_all add: s2_def)
  have p3: "losses s3 = Some (estimate_loss env (n_est s))" "n_est s3 = Suc (n_est s)"
    "iter_num s3 = iter_num s" "lossf s3 = lossf s"
    "trace s3 = trace s2 @ [ForwardBackward (iter_num s), BatchRead, OptimizerStep (iter_num s)]"
    by (simp_all add: s3_def emit_def p2(1-4))
  have lb: "loop_body cfg env s =
              then_do (log_block cfg env s3) (\<lambda>s'. termination_block cfg env (advance s'))"
    using assms(6) by (auto simp: loop_body_after_eval [OF assms(1,2)] s3_def s2_def)
  have lg: "log_block cfg env s3 = (Continue, s4)"
    using assms(4,7) by (simp add: log_block_def s4_def emit_def Let_def p3(1,3))
  have p4: "losses s4 = Some (estimate_loss env (n_est s))" "n_est s4 = Suc (n_est s)"
    "iter_num s4 = iter_num s"
    "trace s4 = trace s3 @ (if iter_num s mod log_interval cfg = 0 then [Log (iter_num s)] else [])"
    by (simp_all add: s4_def emit_def p3(1-3))
  have "\<exists>f. lossf s4 = Some f"
    using assms(8) by (cases "iter_num s mod log_interval cfg = 0") (auto simp: s4_def emit_def p3(4))
  then obtain f where f: "lossf s4 = Some f" ..
  have tb: "termination_block cfg env (advance s4) = final_block cfg env (advance s4)"
    using assms(5) by (simp add: termination_block_def advance_def p4(1))
  have fa: "lossf (advance s4) = Some f"
    using f by (simp add: advance_def)
  have r: "loop_body cfg env s = final_block cfg env (advance s4)"
    by (simp add: lb lg then_do_def tb)
  have fb: "fst (loop_body cfg env s) = Break"
    by (simp add: r final_block_bound [OF fa])
  have tl: "train_loop cfg env s = loop_body cfg env s"
    using fb by (simp add: train_loop.simps [of cfg env s])
  have a4: "iter_num (advance s4) = iter_num s + 1" "n_est (advance s4) = Suc (n_est s)"
    "trace (advance s4) = trace s4"
    by (simp_all add: advance_def p4(2,3))
  have it: "iter_num (snd (loop_body cfg env s)) = iter_num s + 1"
    by (simp add: r final_block_bound [OF fa] a4)
  have tr: "trace (snd (loop_body cfg env s)) =
         trace s4
         @ [FinalEval (fst (estimate_loss env (Suc (n_est s))))
              (snd (estimate_loss env (Suc (n_est s)))), Summary]
         @ (if hypergrad cfg
            then [ResultsWrite (results_file cfg) (fst (estimate_loss env (Suc (n_est s))))
                    (snd (estimate_loss env (Suc (n_est s))))]
            else [])"
    by (simp add: r final_block_bound [OF fa] a4)
  show ?thesis
    by (simp only: tl fb it tr p4(4) p3(5) p2(5) append_assoc simp_thms)
qed

theorem nan_train_loss_stops_loop_witness:
  "scheduled_lr default_config (iter_num start_state) = Inr 0
   \<and> eval_interval default_config \<noteq> 0
   \<and> iter_num start_state mod eval_interval default_config = 0
   \<and> master_process default_config
   \<and> isnan (fst (estimate_loss nan_env (n_est start_state)))
   \<and> \<not> (iter_num start_state = 0 \<and> eval_only default_config)
   \<and> log_interval default_config \<noteq> 0
   \<and> iter_num start_state mod log_interval default_config = 0
   \<and> fst (train_loop default_config nan_env start_state) = Break
   \<and> iter_num (snd (train_loop default_config nan_env start_state)) = 1
   \<and> trace (snd (train_loop default_config nan_env start_state)) =
       [Eval 0 NaN (Finite 1), ForwardBackward 0, BatchRead, OptimizerStep 0, Log 0,
        FinalEval (Finite 3) (Finite 2), Summary,
        ResultsWrite ''train_log_mada_3_b3r'' (Finite 3) (Finite 2)]"
  using nan_train_loss_stops_loop [of default_config start_state 0 nan_env]
    scheduled_lr_default_start
  by (simp add: default_config_def start_state_def nan_env_def env_example_def
        master_process_def ddp_def results_file_def)

text \<open>
  A training loss that is infinite does not stop the loop: line 392 tests
  \<^verbatim>\<open>math.isnan\<close> only. With the defaults and a first evaluation whose training loss is
  \<open>+inf\<close>, the first pass falls through and the second pass trains again.
\<close>

theorem infinite_train_loss_counterexample:
  "estimate_loss inf_env 0 = (PosInf, Finite 1)
   \<and> passes default_config inf_env (Suc 0) start_state =
       (Continue,
        start_state\<lparr>iter_num := 1, local_iter_num := 1, best_val_loss := Finite 1,
          losses := Some (PosInf, Finite 1), lossf := Some (Finite 3), n_est := 1,
          trace := [Eval 0 PosInf (Finite 1), ForwardBackward 0, BatchRead, OptimizerStep 0,
                    Log 0]\<rparr>)
   \<and> fst (passes default_config inf_env (Suc (Suc 0)) start_state) = Continue
   \<and> trace (snd (passes default_config inf_env (Suc (Suc 0)) start_state)) =
       [Eval 0 PosInf (Finite 1), ForwardBackward 0, BatchRead, OptimizerStep 0, Log 0,
        ForwardBackward 1, BatchRead, OptimizerStep 1, Log 1]"
  by (simp add: loop_defs default_config_def start_state_def inf_env_def env_example_def)

text \<open>
  Claim C8. A pass of the loop on a process that is not the master process, in which
  \<open>losses\<close> and \<open>lossf\<close> are unbound as they are at the start of the script, trains and
  then stops with \<^verbatim>\<open>NameError\<close> in the termination branch, which is not guarded by
  \<^verbatim>\<open>master_process\<close>: at line 392 if \<open>iter_num\<close> has not passed \<open>max_iters\<close>, and
  otherwise at line 398, after the evaluation of line 393 has run on this process.
\<close>

theorem worker_pass_stops:
  assumes "\<not> master_process cfg" and "losses s = None" and "lossf s = None"
    and "scheduled_lr cfg (iter_num s) = Inr r"
    and "eval_interval cfg \<noteq> 0" and "log_interval cfg \<noteq> 0"
    and "\<not> (iter_num s = 0 \<and> eval_only cfg)"
  shows "fst (loop_body cfg env s) = Raise NameError
     \<and> trace (snd (loop_body cfg env s)) =
         trace s
         @ [ForwardBackward (iter_num s), BatchRead, OptimizerStep (iter_num s)]
         @ (if max_iters cfg < iter_num s + 1
            then [FinalEval (fst (estimate_loss env (n_est s)))
                    (snd (estimate_loss env (n_est s)))]
            else [])"
proof -
  define s3 where
    "s3 = emit [ForwardBackward (iter_num s), BatchRead, OptimizerStep (iter_num s)]
            (s\<lparr>lr := r\<rparr>)"
  have e2: "eval_block cfg env (s\<lparr>lr := r\<rparr>) = (Continue, s\<lparr>lr := r\<rparr>)"
    using assms(1,5) by (simp add: eval_block_skip)
  have lb: "loop_body cfg env s =
              then_do (log_block cfg env s3) (\<lambda>s'. termination_block cfg env (advance s'))"
    using assms(7) by (auto simp: loop_body_after_eval [OF assms(4,5)] e2 s3_def)
  have lg: "log_block cfg env s3 = (Continue, s3)"
    using assms(1,6) by (simp add: log_block_def)
  have r: "loop_body cfg env s = termination_block cfg env (advance s3)"
    by (simp add: lb lg then_do_def)
  have u: "lossf (advance s3) = None" "losses (advance s3) = None"
    "iter_num (advance s3) = iter_num s + 1" "n_est (advance s3) = n_est s"
    "trace (advance s3)
       = trace s @ [ForwardBackward (iter_num s), BatchRead, OptimizerStep (iter_num s)]"
    using assms(2,3) by (simp_all add: advance_def s3_def emit_def)
  show ?thesis
  proof (cases "max_iters cfg < iter_num s + 1")
    case True
    then have "loop_body cfg env s = final_block cfg env (advance s3)"
      by (simp add: r termination_block_def u(3))
    then show ?thesis
      using True by (simp add: final_block_unbound [OF u(1)] u(4,5))
  next
    case False
    then have "loop_body cfg env s = (Raise NameError, advance s3)"
      by (simp add: r termination_block_def u(2,3))
    then show ?thesis
      using False by (simp add: u(5))
  qed
qed

theorem worker_pass_stops_witness:
  "\<not> master_process worker_config
   \<and> losses (start_state\<lparr>trace := [BatchRead]\<rparr>) = None
   \<and> lossf (start_state\<lparr>trace := [BatchRead]\<rparr>) = None
   \<and> scheduled_lr worker_config (iter_num (start_state\<lparr>trace := [BatchRead]\<rparr>)) = Inr 0
   \<and> eval_interval worker_config \<noteq> 0 \<and> log_interval worker_config \<noteq> 0
   \<and> \<not> (iter_num (start_state\<lparr>trace := [BatchRead]\<rparr>) = 0 \<and> eval_only worker_config)
   \<and> max_iters worker_config < iter_num (start_state\<lparr>trace := [BatchRead]\<rparr>) + 1
   \<and> fst (loop_body worker_config env_example (start_state\<lparr>trace := [BatchRead]\<rparr>))
       = Raise NameError
   \<and> trace (snd (loop_body worker_config env_example (start_state\<lparr>trace := [BatchRead]\<rparr>)))
       = [BatchRead, ForwardBackward 0, BatchRead, OptimizerStep 0,
          FinalEval (Finite 3) (Finite 1)]
   \<and> fst (train_script worker_config env_example) = Raise NameError
   \<and> trace (snd (train_script worker_config env_example))
       = [BatchRead, ForwardBackward 0, BatchRead, OptimizerStep 0,
          FinalEval (Finite 3) (Finite 1)]"
  using worker_pass_stops [of worker_config "start_state\<lparr>trace := [BatchRead]\<rparr>" 0 env_example]
  by (simp add: train_script_def process_init_def model_init_def first_batch_def
        train_loop.simps loop_defs
        worker_config_def default_config_def start_state_def env_example_def)

lemma pf_lt_irrefl: "\<not> pf_lt a a"
  by (cases a) auto

lemma pf_lt_trans: "pf_lt a b \<Longrightarrow> pf_lt b c \<Longrightarrow> pf_lt a c"
  by (cases a; cases b; cases c) auto

lemma running_best_append:
  "running_best b (xs @ ys) = running_best (running_best b xs) ys"
  by (induction xs arbitrary: b) auto

lemma running_best_below:
  "running_best b vs = b \<or> pf_lt (running_best b vs) b"
proof (induction vs arbitrary: b)
  case Nil
  then show ?case by simp
next
  case (Cons v vs)
  show ?case
  proof (cases "pf_lt v b")
    case True
    with Cons [of v] show ?thesis
      by (auto intro: pf_lt_trans)
  next
    case False
    with Cons [of b] show ?thesis
      by auto
  qed
qed

lemma running_best_least:
  "running_best b vs \<in> set (b # vs)
   \<and> (\<forall>v \<in> set (b # vs). \<not> pf_lt v (running_best b vs))"
proof (induction vs arbitrary: b)
  case Nil
  then show ?case by (simp add: pf_lt_irrefl)
next
  case (Cons v vs)
  define c where "c = (if pf_lt v b then v else b)"
  define r where "r = running_best c vs"
  have rr: "running_best b (v # vs) = r"
    by (simp add: r_def c_def)
  from Cons [of c] have m: "r \<in> set (c # vs)" and l: "\<forall>u \<in> set (c # vs). \<not> pf_lt u r"
    by (simp_all add: r_def)
  have ch: "r = c \<or> pf_lt r c"
    unfolding r_def by (rule running_best_below)
  have c_in: "c = v \<or> c = b"
    by (simp add: c_def)
  have nb: "\<not> pf_lt b r"
  proof
    assume a: "pf_lt b r"
    show False
    proof (cases "pf_lt v b")
      case True
      then have cv: "c = v" by (simp add: c_def)
      from True a have "pf_lt v r" by (rule pf_lt_trans)
      with l cv show False by simp
    next
      case False
      then have "c = b" by (simp add: c_def)
      with l a show False by simp
    qed
  qed
  have nv: "\<not> pf_lt v r"
  proof
    assume a: "pf_lt v r"
    show False
    proof (cases "pf_lt v b")
      case True
      then have "c = v" by (simp add: c_def)
      with l a show False by simp
    next
      case False
      then have cb: "c = b" by (simp add: c_def)
      from ch show False
      proof
        assume "r = c"
        with a cb False show False by simp
      next
        assume "pf_lt r c"
        with a have "pf_lt v c" by (rule pf_lt_trans)
        with cb False show False by simp
      qed
    qed
  qed
  have mem: "r \<in> set (b # v # vs)"
    using m c_in by auto
  have rest: "\<forall>u \<in> set vs. \<not> pf_lt u r"
    using l by simp
  show ?case
    unfolding rr using mem nb nv rest by simp
qed

lemma then_do_keeps:
  assumes "\<And>t. g (snd (f t)) = g t"
  shows "g (snd (then_do r f)) = g (snd r)"
  by (simp add: then_do_def assms)

lemma eval_block_best:
  "\<exists>vs. periodic_vals (trace (snd (eval_block cfg env t))) = periodic_vals (trace t) @ vs
        \<and> best_val_loss (snd (eval_block cfg env t))
            = (if always_save_checkpoint cfg then last (best_val_loss t # vs)
               else running_best (best_val_loss t) vs)"
proof (cases "eval_interval cfg \<noteq> 0 \<and> iter_num t mod eval_interval cfg = 0 \<and> master_process cfg")
  case True
  then have e: "eval_block cfg env t = (Continue,
      t\<lparr>losses := Some (estimate_loss env (n_est t)), n_est := Suc (n_est t),
        best_val_loss :=
          (if pf_lt (snd (estimate_loss env (n_est t))) (best_val_loss t)
                \<or> always_save_checkpoint cfg
           then snd (estimate_loss env (n_est t)) else best_val_loss t),
        trace := trace t
          @ [Eval (iter_num t) (fst (estimate_loss env (n_est t)))
               (snd (estimate_loss env (n_est t)))]
          @ (if wandb_log cfg then [WandbLog (iter_num t)] else [])
          @ (if (pf_lt (snd (estimate_loss env (n_est t))) (best_val_loss t)
                   \<or> always_save_checkpoint cfg) \<and> 0 < iter_num t
             then [Checkpoint (iter_num t) (snd (estimate_loss env (n_est t)))] else [])\<rparr>)"
    by (simp add: eval_block_run)
  show ?thesis
    by (rule exI [of _ "[snd (estimate_loss env (n_est t))]"])
       (simp add: e periodic_vals_append)
next
  case False
  then have "snd (eval_block cfg env t) = t"
    by (auto simp: eval_block_def)
  then show ?thesis
    by (intro exI [of _ "[]"]) simp
qed

lemma loop_body_best:
  "\<exists>vs. periodic_vals (trace (snd (loop_body cfg env s))) = periodic_vals (trace s) @ vs
        \<and> best_val_loss (snd (loop_body cfg env s))
            = (if always_save_checkpoint cfg then last (best_val_loss s # vs)
               else running_best (best_val_loss s) vs)"
proof -
  let ?obs = "\<lambda>t. (best_val_loss t, periodic_vals (trace t))"
  have k1: "?obs (snd (set_lr cfg s)) = ?obs s"
    by (simp add: set_lr_def split: sum.splits)
  have k3: "\<And>t. ?obs (snd (eval_only_block cfg t)) = ?obs t"
    by (simp add: eval_only_block_def)
  have k4: "\<And>t. ?obs (snd (train_block t)) = ?obs t"
    by (simp add: train_block_def emit_def periodic_vals_append)
  have k5: "\<And>t. ?obs (snd (log_block cfg env t)) = ?obs t"
    by (simp add: log_block_def emit_def Let_def periodic_vals_append split: option.splits)
  have k6: "\<And>t. ?obs (snd (termination_block cfg env (advance t))) = ?obs t"
    by (simp add: termination_block_def final_block_def advance_def emit_def Let_def
          periodic_vals_append split: option.splits)
  define r2 where "r2 = then_do (set_lr cfg s) (eval_block cfg env)"
  have "?obs (snd (loop_body cfg env s))
        = ?obs (snd (then_do (then_do (then_do r2 (eval_only_block cfg)) train_block)
                        (log_block cfg env)))"
    unfolding loop_body_def r2_def by (rule then_do_keeps) (rule k6)
  also have "\<dots> = ?obs (snd (then_do (then_do r2 (eval_only_block cfg)) train_block))"
    by (rule then_do_keeps) (rule k5)
  also have "\<dots> = ?obs (snd (then_do r2 (eval_only_block cfg)))"
    by (rule then_do_keeps) (rule k4)
  also have "\<dots> = ?obs (snd r2)"
    by (rule then_do_keeps) (rule k3)
  finally have o: "best_val_loss (snd (loop_body cfg env s)) = best_val_loss (snd r2)"
    "periodic_vals (trace (snd (loop_body cfg env s))) = periodic_vals (trace (snd r2))"
    by simp_all
  show ?thesis
  proof (cases "fst (set_lr cfg s) = Continue")
    case True
    then have "r2 = eval_block cfg env (snd (set_lr cfg s))"
      by (simp add: r2_def then_do_def)
    then have o2: "best_val_loss (snd (loop_body cfg env s))
                     = best_val_loss (snd (eval_block cfg env (snd (set_lr cfg s))))"
      "periodic_vals (trace (snd (loop_body cfg env s)))
         = periodic_vals (trace (snd (eval_block cfg env (snd (set_lr cfg s)))))"
      using o by simp_all
    from eval_block_best [of cfg env "snd (set_lr cfg s)"] obtain vs where
      "periodic_vals (trace (snd (eval_block cfg env (snd (set_lr cfg s)))))
         = periodic_vals (trace (snd (set_lr cfg s))) @ vs"
      and "best_val_loss (snd (eval_block cfg env (snd (set_lr cfg s))))
            = (if always_save_checkpoint cfg then last (best_val_loss (snd (set_lr cfg s)) # vs)
               else running_best (best_val_loss (snd (set_lr cfg s))) vs)"
      by blast
    then have "periodic_vals (trace (snd (loop_body cfg env s))) = periodic_vals (trace s) @ vs
        \<and> best_val_loss (snd (loop_body cfg env s))
            = (if always_save_checkpoint cfg then last (best_val_loss s # vs)
               else running_best (best_val_loss s) vs)"
      using k1 by (simp only: o2 prod.inject)
    then show ?thesis
      by (rule exI)
  next
    case False
    then have "r2 = set_lr cfg s"
      by (simp add: r2_def then_do_def)
    with k1 o show ?thesis
      by (intro exI [of _ "[]"]) simp
  qed
qed

lemma passes_best:
  assumes "periodic_vals (trace s0) = []"
  shows "best_val_loss (snd (passes cfg env n s0))
           = (if always_save_checkpoint cfg
              then last (best_val_loss s0 # periodic_vals (trace (snd (passes cfg env n s0))))
              else running_best (best_val_loss s0)
                     (periodic_vals (trace (snd (passes cfg env n s0)))))"
proof (induction n)
  case 0
  then show ?case using assms by simp
next
  case (Suc n)
  show ?case
  proof (cases "fst (passes cfg env n s0) = Continue")
    case False
    then have "passes cfg env (Suc n) s0 = passes cfg env n s0"
      by (simp add: then_do_def)
    with Suc show ?thesis by simp
  next
    case True
    define t where "t = snd (passes cfg env n s0)"
    from True have p: "then_do (passes cfg env n s0) (loop_body cfg env) = loop_body cfg env t"
      by (simp add: then_do_def t_def)
    from loop_body_best [of cfg env t] obtain vs where
      v: "periodic_vals (trace (snd (loop_body cfg env t))) = periodic_vals (trace t) @ vs"
      and b: "best_val_loss (snd (loop_body cfg env t))
            = (if always_save_checkpoint cfg then last (best_val_loss t # vs)
               else running_best (best_val_loss t) vs)"
      by blast
    show ?thesis
    proof (cases "always_save_checkpoint cfg")
      case True
      with Suc have "best_val_loss t = last (best_val_loss s0 # periodic_vals (trace t))"
        by (simp add: t_def)
      with True b v show ?thesis
        by (cases vs) (simp_all add: p)
    next
      case False
      with Suc have "best_val_loss t = running_best (best_val_loss s0) (periodic_vals (trace t))"
        by (simp add: t_def)
      with False b v show ?thesis
        by (simp add: p running_best_append)
    qed
  qed
qed

lemma passes_step_best:
  assumes "\<not> always_save_checkpoint cfg"
  shows "best_val_loss (snd (passes cfg env (Suc n) s0)) = best_val_loss (snd (passes cfg env n s0))
         \<or> pf_lt (best_val_loss (snd (passes cfg env (Suc n) s0)))
                 (best_val_loss (snd (passes cfg env n s0)))"
proof (cases "fst (passes cfg env n s0) = Continue")
  case False
  then show ?thesis by (simp add: then_do_def)
next
  case True
  then have p: "then_do (passes cfg env n s0) (loop_body cfg env)
                  = loop_body cfg env (snd (passes cfg env n s0))"
    by (simp add: then_do_def)
  from loop_body_best [of cfg env "snd (passes cfg env n s0)"] assms obtain vs where
    "best_val_loss (snd (loop_body cfg env (snd (passes cfg env n s0))))
       = running_best (best_val_loss (snd (passes cfg env n s0))) vs"
    by auto
  then show ?thesis
    using running_best_below [of "best_val_loss (snd (passes cfg env n s0))" vs]
    by (simp add: p)
qed

lemma then_do_assoc:
  "then_do (then_do r f) g = then_do r (\<lambda>t. then_do (f t) g)"
  by (simp add: then_do_def)

lemma passes_front:
  "passes cfg env (Suc n) s = then_do (loop_body cfg env s) (passes cfg env n)"
proof (induction n)
  case 0
  show ?case
    by (simp add: then_do_def prod_eq_iff)
next
  case (Suc n)
  have "passes cfg env (Suc (Suc n)) s
        = then_do (then_do (loop_body cfg env s) (passes cfg env n)) (loop_body cfg env)"
    by (simp only: passes.simps(2) [of cfg env "Suc n"] Suc)
  also have "\<dots> = then_do (loop_body cfg env s)
                      (\<lambda>t. then_do (passes cfg env n t) (loop_body cfg env))"
    by (rule then_do_assoc)
  also have "\<dots> = then_do (loop_body cfg env s) (passes cfg env (Suc n))"
    by (rule arg_cong [where f = "then_do (loop_body cfg env s)"]) (simp add: fun_eq_iff)
  finally show ?case .
qed

lemma train_loop_passes:
  "\<exists>n. train_loop cfg env s = passes cfg env (Suc n) s"
proof (induction cfg env s rule: train_loop.induct)
  case (1 cfg env s)
  show ?case
  proof (cases "fst (loop_body cfg env s) = Continue")
    case True
    from 1 [OF True] obtain n where
      n: "train_loop cfg env (snd (loop_body cfg env s))
            = passes cfg env (Suc n) (snd (loop_body cfg env s))"
      by blast
    have "train_loop cfg env s = train_loop cfg env (snd (loop_body cfg env s))"
      using True by (simp add: train_loop.simps [of cfg env s])
    also have "\<dots> = then_do (loop_body cfg env s) (passes cfg env (Suc n))"
      using True n by (simp add: then_do_def)
    also have "\<dots> = passes cfg env (Suc (Suc n)) s"
      by (simp only: passes_front [of cfg env "Suc n" s])
    finally show ?thesis
      by blast
  next
    case False
    then have "train_loop cfg env s = loop_body cfg env s"
      by (simp add: train_loop.simps [of cfg env s])
    also have "\<dots> = passes cfg env (Suc 0) s"
      by (simp add: then_do_def)
    finally show ?thesis
      by blast
  qed
qed

text \<open>
  Claim C6, as amended. Take the loop from a state whose trace holds no periodic
  evaluation yet, and look at the state after any number \<open>n\<close> of passes. If
  \<open>always_save_checkpoint\<close> is off, \<open>best_val_loss\<close> is the best observed: the smallest
  of its initial value and the validation losses of the periodic evaluations so far,
  it is one of these values and none of them is below it, and a further pass leaves it
  as it is or lowers it. If \<open>always_save_checkpoint\<close> is set, \<open>best_val_loss\<close> is the
  validation loss of the latest periodic evaluation, or its initial value while there
  has been none. The loop itself ends in the state after some number of passes, at
  least one.
\<close>

theorem best_val_loss_tracking:
  assumes "periodic_vals (trace s0) = []"
  shows "(\<not> always_save_checkpoint cfg \<longrightarrow>
            best_val_loss (snd (passes cfg env n s0))
              = running_best (best_val_loss s0)
                  (periodic_vals (trace (snd (passes cfg env n s0))))
          \<and> best_val_loss (snd (passes cfg env n s0))
              \<in> set (best_val_loss s0 # periodic_vals (trace (snd (passes cfg env n s0))))
          \<and> (\<forall>v \<in> set (best_val_loss s0 # periodic_vals (trace (snd (passes cfg env n s0)))).
                \<not> pf_lt v (best_val_loss (snd (passes cfg env n s0))))
          \<and> (best_val_loss (snd (passes cfg env (Suc n) s0))
                = best_val_loss (snd (passes cfg env n s0))
              \<or> pf_lt (best_val_loss (snd (passes cfg env (Suc n) s0)))
                      (best_val_loss (snd (passes cfg env n s0)))))
       \<and> (always_save_checkpoint cfg \<longrightarrow>
            best_val_loss (snd (passes cfg env n s0))
              = last (best_val_loss s0 # periodic_vals (trace (snd (passes cfg env n s0)))))
       \<and> (\<exists>m. train_loop cfg env s0 = passes cfg env (Suc m) s0)"
proof (cases "always_save_checkpoint cfg")
  case True
  then show ?thesis
    using passes_best [OF assms, of cfg env n] train_loop_passes [of cfg env s0] by simp
next
  case False
  have b: "best_val_loss (snd (passes cfg env n s0))
             = running_best (best_val_loss s0)
                 (periodic_vals (trace (snd (passes cfg env n s0))))"
    using False passes_best [OF assms, of cfg env n] by simp
  show ?thesis
    using False b passes_step_best [OF False, of env n s0]
      running_best_least [of "best_val_loss s0"
        "periodic_vals (trace (snd (passes cfg env n s0)))"]
      train_loop_passes [of cfg env s0]
    by simp
qed

theorem best_val_loss_tracking_witness:
  "periodic_vals (trace start_state) = []
   \<and> \<not> always_save_checkpoint quiet_config
   \<and> periodic_vals (trace (snd (passes quiet_config descending_env (Suc (Suc 0)) start_state)))
       = [Finite 2000000000, Finite 2]
   \<and> best_val_loss (snd (passes quiet_config descending_env (Suc (Suc 0)) start_state))
       = Finite 2
   \<and> always_save_checkpoint first_eval_config
   \<and> periodic_vals (trace (snd (passes first_eval_config env_example (Suc (Suc 0)) start_state)))
       = [Finite 1, Finite 2]
   \<and> best_val_loss (snd (passes first_eval_config env_example (Suc (Suc 0)) start_state))
       = Finite 2"
  using best_val_loss_tracking [of start_state quiet_config descending_env "Suc (Suc 0)"]
    best_val_loss_tracking [of start_state first_eval_config env_example "Suc (Suc 0)"]
  by (simp add: loop_defs quiet_config_def first_eval_config_def default_config_def
        start_state_def descending_env_def env_example_def)

text \<open>
  With the defaults \<open>always_save_checkpoint\<close> is set, and \<open>best_val_loss\<close> goes from 1
  up to 2 when the second evaluation is worse than the first. With the flag off, an
  evaluation above the initial value \<open>1e9\<close> leaves \<open>best_val_loss\<close> at \<open>1e9\<close>, which no
  evaluation has measured; and the evaluation of the termination branch is not compared
  with \<open>best_val_loss\<close> at all.
\<close>

theorem best_val_loss_counterexample:
  "always_save_checkpoint first_eval_config
   \<and> best_val_loss (snd (passes first_eval_config env_example (Suc 0) start_state)) = Finite 1
   \<and> periodic_vals (trace (snd (passes first_eval_config env_example (Suc (Suc 0)) start_state)))
       = [Finite 1, Finite 2]
   \<and> best_val_loss (snd (passes first_eval_config env_example (Suc (Suc 0)) start_state))
       = Finite 2
   \<and> pf_lt (Finite 1) (Finite 2)
   \<and> \<not> always_save_checkpoint quiet_config
   \<and> periodic_vals (trace (snd (passes quiet_config descending_env (Suc 0) start_state)))
       = [Finite 2000000000]
   \<and> best_val_loss (snd (passes quiet_config descending_env (Suc 0) start_state))
       = Finite 1000000000
   \<and> passes quiet_config descending_env (Suc (Suc 0)) start_state =
       (Break,
        start_state\<lparr>iter_num := 2, local_iter_num := 2, best_val_loss := Finite 2,
          lr := 3 / 10000000, losses := Some (Finite 3, Finite 1), lossf := Some (Finite 3),
          n_est := 3,
          trace := [Eval 0 (Finite 3) (Finite 2000000000), ForwardBackward 0, BatchRead,
                    OptimizerStep 0, Log 0,
                    Eval 1 (Finite 3) (Finite 2), Checkpoint 1 (Finite 2), ForwardBackward 1,
                    BatchRead, OptimizerStep 1, Log 1,
                    FinalEval (Finite 3) (Finite 1), Summary,
                    ResultsWrite ''train_log_mada_3_b3r'' (Finite 3) (Finite 1)]\<rparr>)"
  by (simp add: loop_defs quiet_config_def first_eval_config_def default_config_def
        start_state_def descending_env_def env_example_def)

end
